theory Spec2Isabelle
  imports Main "HOL-Library.Sublist"
begin

section \<open>The process supervisor of tuizer: \<open>src/models/command/index.ts\<close>\<close>

text \<open>
  The class \<open>Command\<close> owns one child process. Its fields become a record, its
  methods functions from the record to the new record, the callbacks it registers on the
  child process and on the input stream become handler functions, and what the Node.js
  runtime decides (whether \<open>spawn\<close> throws, what \<open>kill\<close> does, what the clock
  reads) is a parameter of the operation that asks for it.

  JavaScript strings are modelled as \<open>string\<close>; a value that may be \<open>undefined\<close> at
  run time is an \<open>option\<close>, with \<open>None\<close> for \<open>undefined\<close>.
\<close>

subsection \<open>Enumerations and data\<close>

text \<open>\<open>definitions/CommandStatusEnum\<close> and \<open>definitions/IHistoryEntry\<close>, as the class uses them.\<close>

datatype CommandStatus = NOT_STARTED | RUNNING | FINISHED | ERROR | STOPPED | KILLED

datatype HistoryEntryType = IN | OUT | ERR

type_synonym Date = int

record IHistoryEntry =
  data :: string
  date :: Date
  type :: HistoryEntryType

text \<open>
  \<open>CommandParameter\<close>: a literal string, or an object \<open>{ parameter, answer }\<close> whose
  \<open>answer\<close> may be absent.
\<close>

datatype CommandParameter =
    Literal string
  | Question (parameter: string) (answer: "string option")

datatype error =
    ValidationError string
  | ProcessError string
  | TypeError string
  | SystemError string

text \<open>A call of \<open>logger.debug\<close> or \<open>logger.error\<close>, with its message (the metadata object is left out).\<close>

datatype log_call = LogDebug string | LogError string

subsection \<open>String helpers of the runtime\<close>

definition dollar :: char where
  "dollar = CHR ''$''"

definition backslash :: char where
  "backslash = CHR 0x5C"

definition ampersand :: char where
  "ampersand = CHR ''&''"

definition backtick :: char where
  "backtick = CHR 0x60"

definition quote :: char where
  "quote = CHR 0x27"

text \<open>\<open>ToString\<close> of a value that is a string or \<open>undefined\<close>.\<close>

fun toString :: "string option \<Rightarrow> string" where
  "toString None = ''undefined''"
| "toString (Some s) = s"

text \<open>
  \<open>Array.prototype.join\<close>: the elements separated by \<open>sep\<close>; an \<open>undefined\<close> element
  contributes the empty string.
\<close>

fun joinElem :: "string option \<Rightarrow> string" where
  "joinElem None = []"
| "joinElem (Some s) = s"

fun join :: "string \<Rightarrow> string option list \<Rightarrow> string" where
  "join sep [] = []"
| "join sep [x] = joinElem x"
| "join sep (x # y # ys) = joinElem x @ sep @ join sep (y # ys)"

text \<open>Decimal rendering of an integer, as a template literal renders a whole number.\<close>

definition digit :: "nat \<Rightarrow> char" where
  "digit n = char_of (48 + n)"

function showNat :: "nat \<Rightarrow> string" where
  "showNat n = (if n < 10 then [digit n] else showNat (n div 10) @ [digit (n mod 10)])"
  by pat_completeness auto
termination
  by (relation "measure id") auto

definition showInt :: "int \<Rightarrow> string" where
  "showInt i = (if i < 0 then CHR ''-'' # showNat (nat (- i)) else showNat (nat i))"

fun showCode :: "int option \<Rightarrow> string" where
  "showCode None = ''null''"
| "showCode (Some n) = showInt n"

subsection \<open>\<open>resolveCommandParameters\<close>\<close>

text \<open>
  The regular expression \<open>/(?<!\\)\$/\<close>: the first \<open>$\<close> whose preceding character is not
  a backslash. \<open>findMarker prev s\<close> scans \<open>s\<close>, \<open>prev\<close> being the character before it
  (none at the start of the template), and returns the text before and after the match.
\<close>

fun findMarker :: "char option \<Rightarrow> string \<Rightarrow> (string \<times> string) option" where
  "findMarker prev [] = None"
| "findMarker prev (c # cs) =
     (if c = dollar \<and> prev \<noteq> Some backslash then Some ([], cs)
      else (case findMarker (Some c) cs of
              None \<Rightarrow> None
            | Some (pre, post) \<Rightarrow> Some (c # pre, post)))"

text \<open>
  \<open>String.prototype.replace\<close> with a string as replacement expands the replacement
  patterns of the language (\<open>GetSubstitution\<close>): \<open>$$\<close> is a dollar sign, \<open>$&\<close> the matched
  text, \<open>$`\<close> the text before the match, \<open>$'\<close> the text after it. The expression has no
  capture group, so \<open>$1\<close>, \<open>$<name>\<close> and a \<open>$\<close> in front of any other character stand
  for themselves.
\<close>

fun getSubstitution :: "string \<Rightarrow> string \<Rightarrow> string \<Rightarrow> string \<Rightarrow> string" where
  "getSubstitution matched pre post [] = []"
| "getSubstitution matched pre post [c] = [c]"
| "getSubstitution matched pre post (c # d # rest) =
     (if c = dollar \<and> d = dollar then dollar # getSubstitution matched pre post rest
      else if c = dollar \<and> d = ampersand then matched @ getSubstitution matched pre post rest
      else if c = dollar \<and> d = backtick then pre @ getSubstitution matched pre post rest
      else if c = dollar \<and> d = quote then post @ getSubstitution matched pre post rest
      else c # getSubstitution matched pre post (d # rest))"

text \<open>\<open>template.replace(replaceRule, replacement)\<close> for the non-global rule above.\<close>

definition replaceFirstMarker :: "string \<Rightarrow> string \<Rightarrow> string" where
  "replaceFirstMarker template replacement =
     (case findMarker None template of
        None \<Rightarrow> template
      | Some (pre, post) \<Rightarrow>
          pre @ getSubstitution [dollar] pre post replacement @ post)"

text \<open>
  The body of the \<open>map\<close> callback. The result is typed \<open>string\<close> in the source, but
  \<open>param.answer as string\<close> is \<open>undefined\<close> at run time when the answer is absent.
\<close>

fun resolveParameter :: "CommandParameter \<Rightarrow> string option" where
  "resolveParameter (Literal s) = Some s"
| "resolveParameter (Question template ans) =
     (if findMarker None template \<noteq> None
      then Some (replaceFirstMarker template (toString ans))
      else ans)"

definition resolveCommandParameters :: "CommandParameter list \<Rightarrow> string option list" where
  "resolveCommandParameters params = map resolveParameter params"

subsection \<open>The fields of \<open>Command\<close> and what it touches outside itself\<close>

record UserInfo =
  uid :: int
  gid :: int

text \<open>
  The bundle of stream handles as the constructor receives it. A handle is named by a
  number; a field that is absent is \<open>None\<close>.
\<close>

record RunCommandStreams =
  readInput :: "nat option"
  writeOutput :: "nat option"
  writeError :: "nat option"

text \<open>The descriptor as the constructor receives it, before validation.\<close>

record ICommandDescriptor =
  dCommand :: "string option"
  dParameters :: "CommandParameter list option"
  dDescription :: "string option"
  dNameAlias :: "string option"

text \<open>
  The \<open>ChildProcess\<close> object that \<open>spawn\<close> returned: its \<open>pid\<close> (absent when the
  process could not be started), and whether the \<open>exit\<close> and \<open>error\<close> listeners that
  \<open>eventsListener\<close> registers are on it.
\<close>

record ChildProcess =
  cpPid :: "nat option"
  exitListener :: bool
  errorListener :: bool

text \<open>
  The private fields of the class, in the order of the source, followed by the effects of
  the object on its collaborators: the calls of the logger, the signals passed to
  \<open>childProcess.kill\<close>, the chunks written to the child's standard input and to the two
  output sinks, and the number of \<open>data\<close> listeners the object has registered on
  \<open>streams.readInput\<close>.
\<close>

record Command =
  command :: string
  parameters :: "CommandParameter list"
  description :: string
  nameAlias :: string
  pid :: "nat option"
  status :: CommandStatus
  runAs :: UserInfo
  exitCode :: "int option"
  history :: "IHistoryEntry list"
  childProcess :: "ChildProcess option"
  startDate :: "Date option"
  streams :: RunCommandStreams
  logged :: "log_call list"
  signalsSent :: "string list"
  stdinWritten :: "string list"
  outputWritten :: "string list"
  errorWritten :: "string list"
  readInputListeners :: nat

subsection \<open>The constructor\<close>

text \<open>
  Modelled from the spec: \<open>commandDescriptorSchema\<close> of \<open>definitions/ICommandDescriptor\<close>,
  which is not among the sources. The spec requires \<open>command\<close> to be present and
  non-empty; \<open>parameters\<close>, \<open>description\<close> and \<open>nameAlias\<close> are optional. A descriptor
  that is \<open>undefined\<close> is not an object and fails.
\<close>

fun commandDescriptorSchema :: "ICommandDescriptor option \<Rightarrow> bool" where
  "commandDescriptorSchema None = False"
| "commandDescriptorSchema (Some d) = (case dCommand d of None \<Rightarrow> False | Some c \<Rightarrow> c \<noteq> [])"

text \<open>
  Modelled from the spec: \<open>runCommandArgsSchema\<close> of \<open>definitions/ICommand\<close>, which is not
  among the sources. The spec describes a bundle of three stream handles (a readable
  input source, a writable output sink, a writable error sink); a bundle that is
  \<open>undefined\<close> is not an object and fails.
\<close>

fun runCommandArgsSchema :: "RunCommandStreams option \<Rightarrow> bool" where
  "runCommandArgsSchema None = False"
| "runCommandArgsSchema (Some s) = (readInput s \<noteq> None \<and> writeOutput s \<noteq> None \<and> writeError s \<noteq> None)"

text \<open>\<open>x || fallback\<close> on a string that may be absent: an absent or empty string is falsy.\<close>

fun orElse :: "string option \<Rightarrow> string \<Rightarrow> string" where
  "orElse None fallback = fallback"
| "orElse (Some s) fallback = (if s = [] then fallback else s)"

fun orEmptyList :: "'a list option \<Rightarrow> 'a list" where
  "orEmptyList None = []"
| "orEmptyList (Some xs) = xs"

text \<open>
  \<open>new Command(commandDescriptor, streams)\<close>. \<open>newId\<close> is what \<open>idGenerator()\<close> returns
  and \<open>user\<close> what \<open>userInfo()\<close> returns. The result is the error thrown or the new
  object. On the second failure path the arguments of \<open>logger.error\<close> are evaluated
  first, and \<open>streams.toString()\<close> on a bundle that is \<open>undefined\<close> throws a \<open>TypeError\<close>
  before the \<open>ValidationError\<close> is built. The last case is reached by no input:
  both schemas have accepted their argument.
\<close>

definition Command_new ::
  "string \<Rightarrow> UserInfo \<Rightarrow> ICommandDescriptor option \<Rightarrow> RunCommandStreams option \<Rightarrow> error + Command" where
  "Command_new newId user commandDescriptor streamsArg =
     (if \<not> commandDescriptorSchema commandDescriptor then
        Inl (ValidationError ''Could not create command instance: command descriptor not provided'')
      else if \<not> runCommandArgsSchema streamsArg then
        (case streamsArg of
           None \<Rightarrow> Inl (TypeError ''Cannot read properties of undefined (reading toString)'')
         | Some s \<Rightarrow> Inl (ValidationError ''Could not create command instance: IO streams not provided''))
      else
        (case (commandDescriptor, streamsArg) of
           (Some d, Some s) \<Rightarrow>
             (case dCommand d of
                Some cmd \<Rightarrow>
                  Inr \<lparr> command = cmd,
                        parameters = orEmptyList (dParameters d),
                        description = orElse (dDescription d) [],
                        nameAlias = orElse (dNameAlias d) newId,
                        pid = None,
                        status = NOT_STARTED,
                        runAs = user,
                        exitCode = None,
                        history = [],
                        childProcess = None,
                        startDate = None,
                        streams = s,
                        logged = [LogDebug (''Creating command '' @ orElse (dNameAlias d) newId)],
                        signalsSent = [],
                        stdinWritten = [],
                        outputWritten = [],
                        errorWritten = [],
                        readInputListeners = 0 \<rparr>
              | None \<Rightarrow> Inl (TypeError []))
         | _ \<Rightarrow> Inl (TypeError [])))"

subsection \<open>The listeners\<close>

text \<open>
  The callback of \<open>childProcess.on('exit', (code, signal) => ...)\<close>. \<open>signal\<close> is the
  name of the terminating signal or \<open>null\<close>, \<open>code\<close> the exit code or \<open>null\<close>.
  \<open>code && code > 0\<close> is false for \<open>null\<close> and for \<open>0\<close>.
\<close>

definition exitMessage :: "string \<Rightarrow> int option \<Rightarrow> string option \<Rightarrow> string" where
  "exitMessage alias code signal =
     ''Command \"'' @ alias @ ''\" is exiting ''
       @ (case signal of None \<Rightarrow> [] | Some s \<Rightarrow> if s = [] then [] else ''by signal'' @ s)
       @ '' with code '' @ showCode code"

definition onExit :: "int option \<Rightarrow> string option \<Rightarrow> Command \<Rightarrow> Command" where
  "onExit code signal c =
     (let st = (if signal = Some ''SIGKILL'' then KILLED
                else if signal = Some ''SIGTERM'' then STOPPED
                else (case code of
                        Some n \<Rightarrow> if n \<noteq> 0 \<and> n > 0 then ERROR else FINISHED
                      | None \<Rightarrow> FINISHED))
      in c\<lparr> status := st,
            exitCode := code,
            logged := logged c @ [LogDebug (exitMessage (nameAlias c) code signal)] \<rparr>)"

text \<open>The callback of \<open>childProcess.on('error', (err) => ...)\<close>; \<open>msg\<close> is \<open>err.message\<close>.\<close>

definition onError :: "string \<Rightarrow> Command \<Rightarrow> Command" where
  "onError msg c =
     c\<lparr> status := STOPPED,
         logged := logged c @ [LogError (''Command '' @ nameAlias c @ '' stopped: '' @ msg)] \<rparr>"

text \<open>
  The three \<open>data\<close> callbacks of \<open>registerIoEvent\<close>. \<open>now\<close> is what \<open>new Date()\<close>
  reads when the callback runs.
\<close>

definition onStdoutData :: "Date \<Rightarrow> string \<Rightarrow> Command \<Rightarrow> Command" where
  "onStdoutData now chunk c =
     c\<lparr> outputWritten := outputWritten c @ [chunk],
         history := history c @ [\<lparr> data = chunk, date = now, type = OUT \<rparr>] \<rparr>"

definition onStderrData :: "Date \<Rightarrow> string \<Rightarrow> Command \<Rightarrow> Command" where
  "onStderrData now chunk c =
     c\<lparr> errorWritten := errorWritten c @ [chunk],
         history := history c @ [\<lparr> data = chunk, date = now, type = ERR \<rparr>] \<rparr>"

definition onInputData :: "Date \<Rightarrow> string \<Rightarrow> Command \<Rightarrow> Command" where
  "onInputData now chunk c =
     c\<lparr> stdinWritten := (case childProcess c of
                            None \<Rightarrow> stdinWritten c
                          | Some p \<Rightarrow> stdinWritten c @ [chunk]),
         history := history c @ [\<lparr> data = chunk, date = now, type = IN \<rparr>] \<rparr>"

text \<open>
  \<open>eventsListener\<close> puts the two callbacks on the current child process, and
  \<open>registerIoEvent\<close> adds one more \<open>data\<close> listener to \<open>streams.readInput\<close> (the
  listeners on the child's own output streams live and die with the child).
\<close>

definition eventsListener :: "Command \<Rightarrow> Command" where
  "eventsListener c =
     c\<lparr> childProcess :=
           map_option (\<lambda>p. p\<lparr> exitListener := True, errorListener := True \<rparr>) (childProcess c) \<rparr>"

definition registerIoEvent :: "Command \<Rightarrow> Command" where
  "registerIoEvent c = c\<lparr> readInputListeners := Suc (readInputListeners c) \<rparr>"

subsection \<open>The public operations\<close>

text \<open>
  What \<open>spawn\<close> does is the runtime's choice: it throws (with the message given), or it
  returns a child process, whose \<open>pid\<close> is absent when the executable could not be
  started (that failure arrives later, as an \<open>error\<close> event).
\<close>

datatype spawn_outcome = SpawnThrows string | Spawned "nat option"

text \<open>
  \<open>run()\<close>. The result is the error thrown, if any, and the object as the call leaves it:
  the fields assigned before the failure stay assigned.
\<close>

definition run :: "spawn_outcome \<Rightarrow> Date \<Rightarrow> Command \<Rightarrow> error option \<times> Command" where
  "run spawned now c =
     (let resolvedParameters = resolveCommandParameters (parameters c);
          c1 = c\<lparr> logged := logged c @
                  [LogDebug (''Running command: '' @ command c @ '' '' @ join '' '' resolvedParameters)] \<rparr>;
          c2 = c1\<lparr> startDate := Some now \<rparr>
      in case spawned of
           Spawned p \<Rightarrow>
             (None,
              registerIoEvent (eventsListener
                (c2\<lparr> childProcess := Some \<lparr> cpPid = p, exitListener = False, errorListener = False \<rparr>,
                     pid := p,
                     status := RUNNING \<rparr>)))
         | SpawnThrows e \<Rightarrow>
             (Some (ProcessError ''A problem occurred when running the process''),
              c2\<lparr> logged := logged c2 @ [LogError ''A problem occurred when running the process''] \<rparr>))"

text \<open>
  \<open>EventEmitter.emit('error', err)\<close> on the child process: the listener of
  \<open>eventsListener\<close> runs when it is registered; with no listener for \<open>error\<close> the emitter
  throws the error.
\<close>

definition emitError :: "string \<Rightarrow> Command \<Rightarrow> error option \<times> Command" where
  "emitError msg c =
     (case childProcess c of
        None \<Rightarrow> (None, c)
      | Some p \<Rightarrow> if errorListener p then (None, onError msg c) else (Some (SystemError msg), c))"

text \<open>
  What \<open>childProcess.kill(signal)\<close> does is the runtime's choice: the signal is delivered,
  the process is already gone (nothing happens), the call throws, or it emits an
  \<open>error\<close> event on the child process before it returns.
\<close>

datatype kill_outcome = Signalled | AlreadyGone | KillThrows | KillEmitsError string

definition childKill :: "string \<Rightarrow> kill_outcome \<Rightarrow> Command \<Rightarrow> error option \<times> Command" where
  "childKill signal outcome c =
     (let c1 = c\<lparr> signalsSent := signalsSent c @ [signal] \<rparr>
      in case outcome of
           Signalled \<Rightarrow> (None, c1)
         | AlreadyGone \<Rightarrow> (None, c1)
         | KillThrows \<Rightarrow> (Some (SystemError ''kill''), c1)
         | KillEmitsError msg \<Rightarrow> emitError msg c1)"

text \<open>\<open>stop()\<close> and \<open>kill()\<close>: \<open>this.childProcess?.kill(...)\<close> does nothing when there is no child.\<close>

definition stop :: "kill_outcome \<Rightarrow> Command \<Rightarrow> error option \<times> Command" where
  "stop outcome c =
     (let c1 = c\<lparr> logged := logged c @ [LogDebug (''Stopping command '' @ nameAlias c)] \<rparr>
      in case childProcess c1 of
           None \<Rightarrow> (None, c1)
         | Some p \<Rightarrow> childKill ''SIGTERM'' outcome c1)"

definition kill :: "kill_outcome \<Rightarrow> Command \<Rightarrow> error option \<times> Command" where
  "kill outcome c =
     (let c1 = c\<lparr> logged := logged c @ [LogDebug (''Killing command '' @ nameAlias c)] \<rparr>
      in case childProcess c1 of
           None \<Rightarrow> (None, c1)
         | Some p \<Rightarrow> childKill ''SIGKILL'' outcome c1)"

definition isRunning :: "Command \<Rightarrow> bool" where
  "isRunning c = (status c = RUNNING)"

definition getStatus :: "Command \<Rightarrow> CommandStatus" where
  "getStatus c = status c"

definition getParameters :: "Command \<Rightarrow> CommandParameter list" where
  "getParameters c = parameters c"

definition setParameters :: "CommandParameter list \<Rightarrow> Command \<Rightarrow> Command" where
  "setParameters ps c = c\<lparr> parameters := ps \<rparr>"

definition getHistoryDump :: "Command \<Rightarrow> IHistoryEntry list" where
  "getHistoryDump c = history c"

text \<open>
  \<open>removeAllEventListeners(event?)\<close>: with a non-empty event name, the listeners of that
  event are removed from the child process; otherwise those of every event.
\<close>

definition removeAllEventListeners :: "string option \<Rightarrow> Command \<Rightarrow> Command" where
  "removeAllEventListeners event c =
     c\<lparr> childProcess :=
           map_option
             (\<lambda>p. if event = None \<or> event = Some [] then p\<lparr> exitListener := False, errorListener := False \<rparr>
                  else if event = Some ''exit'' then p\<lparr> exitListener := False \<rparr>
                  else if event = Some ''error'' then p\<lparr> errorListener := False \<rparr>
                  else p)
             (childProcess c) \<rparr>"

subsection \<open>Events and scripts\<close>

text \<open>
  The events the runtime delivers: from the current child process (\<open>exit\<close>, \<open>error\<close>, a
  chunk on its standard output or standard error) and from \<open>streams.readInput\<close>. An
  event reaches the callbacks registered for it: the child's events need a child and,
  for \<open>exit\<close> and \<open>error\<close>, a listener that has not been removed; a chunk of input runs
  one callback for each listener registered on the input stream.
\<close>

datatype event =
    Exit "int option" "string option"
  | ErrorEvent string
  | StdoutData string
  | StderrData string
  | InputData string

fun deliver :: "Date \<Rightarrow> event \<Rightarrow> Command \<Rightarrow> error option \<times> Command" where
  "deliver now (Exit code signal) c =
     (case childProcess c of
        None \<Rightarrow> (None, c)
      | Some p \<Rightarrow> if exitListener p then (None, onExit code signal c) else (None, c))"
| "deliver now (ErrorEvent msg) c = emitError msg c"
| "deliver now (StdoutData chunk) c =
     (case childProcess c of None \<Rightarrow> (None, c) | Some p \<Rightarrow> (None, onStdoutData now chunk c))"
| "deliver now (StderrData chunk) c =
     (case childProcess c of None \<Rightarrow> (None, c) | Some p \<Rightarrow> (None, onStderrData now chunk c))"
| "deliver now (InputData chunk) c =
     (None, (onInputData now chunk ^^ readInputListeners c) c)"

text \<open>A script of timed events, delivered in order.\<close>

fun deliverAll :: "(Date \<times> event) list \<Rightarrow> Command \<Rightarrow> Command" where
  "deliverAll [] c = c"
| "deliverAll ((now, e) # es) c = deliverAll es (snd (deliver now e c))"

text \<open>
  Everything a caller and the runtime can do to the object, one step at a time. A caller
  that catches what a step throws goes on with the object as the step left it.
\<close>

datatype operation =
    Run spawn_outcome Date
  | Stop kill_outcome
  | Kill kill_outcome
  | SetParameters "CommandParameter list"
  | RemoveAllEventListeners "string option"
  | Deliver Date event

fun exec :: "operation \<Rightarrow> Command \<Rightarrow> error option \<times> Command" where
  "exec (Run spawned now) c = run spawned now c"
| "exec (Stop outcome) c = stop outcome c"
| "exec (Kill outcome) c = kill outcome c"
| "exec (SetParameters ps) c = (None, setParameters ps c)"
| "exec (RemoveAllEventListeners event) c = (None, removeAllEventListeners event c)"
| "exec (Deliver now e) c = deliver now e c"

fun execAll :: "operation list \<Rightarrow> Command \<Rightarrow> Command" where
  "execAll [] c = c"
| "execAll (x # xs) c = execAll xs (snd (exec x c))"

definition terminal :: "CommandStatus \<Rightarrow> bool" where
  "terminal s = (s = FINISHED \<or> s = ERROR \<or> s = STOPPED \<or> s = KILLED)"

text \<open>Whether a step is a \<open>run()\<close> whose \<open>spawn\<close> returns a child process.\<close>

fun isSpawn :: "operation \<Rightarrow> bool" where
  "isSpawn (Run (Spawned p) now) = True"
| "isSpawn x = False"

text \<open>
  Whether a step takes the \<open>exit\<close> listener, or the \<open>error\<close> listener, off the child
  process: \<open>removeAllEventListeners\<close> with that event's name, or with no name at all.
\<close>

fun removesExit :: "operation \<Rightarrow> bool" where
  "removesExit (RemoveAllEventListeners event) = (event = None \<or> event = Some [] \<or> event = Some ''exit'')"
| "removesExit x = False"


text \<open>
  The steps that assign \<open>status\<close>: a successful \<open>run()\<close>, an \<open>exit\<close> or \<open>error\<close> event, and a
  \<open>stop()\<close> or \<open>kill()\<close> during which the runtime emits \<open>error\<close>.
\<close>

fun assignsStatus :: "operation \<Rightarrow> bool" where
  "assignsStatus (Run (Spawned p) now) = True"
| "assignsStatus (Deliver now (Exit code signal)) = True"
| "assignsStatus (Deliver now (ErrorEvent msg)) = True"
| "assignsStatus (Stop (KillEmitsError msg)) = True"
| "assignsStatus (Kill (KillEmitsError msg)) = True"
| "assignsStatus x = False"

text \<open>
  The history entries a timed event is expected to leave when \<open>k\<close> listeners are on the
  input stream: one for a chunk of output, \<open>k\<close> for a chunk of input, none otherwise.
\<close>

fun recorded :: "nat \<Rightarrow> Date \<times> event \<Rightarrow> IHistoryEntry list" where
  "recorded k (now, StdoutData chunk) = [\<lparr> data = chunk, date = now, type = OUT \<rparr>]"
| "recorded k (now, StderrData chunk) = [\<lparr> data = chunk, date = now, type = ERR \<rparr>]"
| "recorded k (now, InputData chunk) = replicate k \<lparr> data = chunk, date = now, type = IN \<rparr>"
| "recorded k (now, e) = []"

fun isStdout :: "Date \<times> event \<Rightarrow> bool" where
  "isStdout (now, StdoutData chunk) = True"
| "isStdout x = False"

fun isStderr :: "Date \<times> event \<Rightarrow> bool" where
  "isStderr (now, StderrData chunk) = True"
| "isStderr x = False"

fun isInput :: "Date \<times> event \<Rightarrow> bool" where
  "isInput (now, InputData chunk) = True"
| "isInput x = False"

text \<open>
  Whether there is a child process that still carries the \<open>exit\<close> listener, or the
  \<open>error\<close> listener, that \<open>eventsListener\<close> registered.
\<close>

definition exitListening :: "Command \<Rightarrow> bool" where
  "exitListening c = (case childProcess c of None \<Rightarrow> False | Some p \<Rightarrow> exitListener p)"


subsection \<open>A concrete command\<close>

definition sampleUser :: UserInfo where
  "sampleUser = \<lparr> uid = 1000, gid = 1000 \<rparr>"

definition sampleDescriptor :: ICommandDescriptor where
  "sampleDescriptor =
     \<lparr> dCommand = Some ''echo'',
       dParameters = Some [Literal ''hello''],
       dDescription = None,
       dNameAlias = Some ''greet'' \<rparr>"

definition sampleStreams :: RunCommandStreams where
  "sampleStreams = \<lparr> readInput = Some 0, writeOutput = Some 1, writeError = Some 2 \<rparr>"

definition sampleCommand :: Command where
  "sampleCommand =
     \<lparr> command = ''echo'',
       parameters = [Literal ''hello''],
       description = [],
       nameAlias = ''greet'',
       pid = None,
       status = NOT_STARTED,
       runAs = sampleUser,
       exitCode = None,
       history = [],
       childProcess = None,
       startDate = None,
       streams = sampleStreams,
       logged = [LogDebug ''Creating command greet''],
       signalsSent = [],
       stdinWritten = [],
       outputWritten = [],
       errorWritten = [],
       readInputListeners = 0 \<rparr>"

section \<open>Properties\<close>

subsection \<open>Unfolding the operations\<close>

lemmas handler_defs = onExit_def onError_def onStdoutData_def onStderrData_def onInputData_def

lemmas method_defs = run_def stop_def kill_def childKill_def emitError_def setParameters_def
  removeAllEventListeners_def eventsListener_def registerIoEvent_def

lemma sampleCommand_constructed:
  "Command_new ''id-1'' sampleUser (Some sampleDescriptor) (Some sampleStreams) = Inr sampleCommand"
  by (simp add: Command_new_def sampleDescriptor_def sampleStreams_def sampleCommand_def)

subsection \<open>Input callbacks\<close>

lemma onInputData_funpow_history:
  "history ((onInputData now chunk ^^ k) c)
     = history c @ replicate k \<lparr> data = chunk, date = now, type = IN \<rparr>"
proof (induction k)
  case 0
  show ?case by simp
next
  case (Suc k)
  have "history ((onInputData now chunk ^^ Suc k) c)
          = history ((onInputData now chunk ^^ k) c) @ [\<lparr> data = chunk, date = now, type = IN \<rparr>]"
    by (simp add: onInputData_def)
  with Suc show ?case
    by (simp add: replicate_append_same)
qed

lemma onInputData_funpow_frame:
  "status ((onInputData now chunk ^^ k) c) = status c
   \<and> childProcess ((onInputData now chunk ^^ k) c) = childProcess c
   \<and> readInputListeners ((onInputData now chunk ^^ k) c) = readInputListeners c
   \<and> exitCode ((onInputData now chunk ^^ k) c) = exitCode c
   \<and> pid ((onInputData now chunk ^^ k) c) = pid c
   \<and> parameters ((onInputData now chunk ^^ k) c) = parameters c
   \<and> startDate ((onInputData now chunk ^^ k) c) = startDate c
   \<and> signalsSent ((onInputData now chunk ^^ k) c) = signalsSent c"
  by (induction k) (simp_all add: onInputData_def)

subsection \<open>What a delivered event leaves alone\<close>

lemma deliver_frame:
  "childProcess (snd (deliver now e c)) = childProcess c
   \<and> readInputListeners (snd (deliver now e c)) = readInputListeners c
   \<and> pid (snd (deliver now e c)) = pid c
   \<and> parameters (snd (deliver now e c)) = parameters c
   \<and> startDate (snd (deliver now e c)) = startDate c"
  by (cases e)
     (simp_all add: handler_defs emitError_def onInputData_funpow_frame split: option.split)

lemma deliver_history:
  assumes "childProcess c \<noteq> None"
  shows "history (snd (deliver now e c)) = history c @ recorded (readInputListeners c) (now, e)"
  using assms
  by (cases e)
     (auto simp add: handler_defs emitError_def onInputData_funpow_history split: option.split)

lemma deliverAll_frame:
  "childProcess (deliverAll evs c) = childProcess c
   \<and> readInputListeners (deliverAll evs c) = readInputListeners c
   \<and> pid (deliverAll evs c) = pid c
   \<and> parameters (deliverAll evs c) = parameters c
   \<and> startDate (deliverAll evs c) = startDate c"
proof (induction evs arbitrary: c)
  case Nil
  show ?case by simp
next
  case (Cons x evs)
  obtain now e where x: "x = (now, e)" by (cases x)
  show ?case
    unfolding x using Cons [of "snd (deliver now e c)"] deliver_frame [of now e c]
    by simp
qed

lemma deliverAll_history:
  assumes "childProcess c \<noteq> None"
  shows "history (deliverAll evs c) = history c @ concat (map (recorded (readInputListeners c)) evs)"
  using assms
proof (induction evs arbitrary: c)
  case Nil
  show ?case by simp
next
  case (Cons x evs)
  obtain now e where x: "x = (now, e)" by (cases x)
  let ?c = "snd (deliver now e c)"
  have child: "childProcess ?c \<noteq> None" and k: "readInputListeners ?c = readInputListeners c"
    using Cons.prems deliver_frame [of now e c] by simp_all
  have "history (deliverAll evs ?c) = history ?c @ concat (map (recorded (readInputListeners ?c)) evs)"
    using Cons.IH [OF child] .
  then show ?case
    unfolding x using deliver_history [OF Cons.prems, of now e] k by simp
qed

subsection \<open>History only grows\<close>

lemma deliver_history_prefix: "prefix (history c) (history (snd (deliver now e c)))"
  by (cases e)
     (auto simp add: handler_defs emitError_def onInputData_funpow_history split: option.split)

lemma exec_history_prefix: "prefix (history c) (history (snd (exec x c)))"
proof (cases x)
  case (Deliver now e)
  then show ?thesis by (simp add: deliver_history_prefix)
next
  case (Run spawned now)
  then show ?thesis by (cases spawned) (simp_all add: method_defs Let_def)
next
  case (Stop outcome)
  then show ?thesis
    by (cases outcome) (simp_all add: method_defs handler_defs Let_def split: option.split)
next
  case (Kill outcome)
  then show ?thesis
    by (cases outcome) (simp_all add: method_defs handler_defs Let_def split: option.split)
qed (simp_all add: method_defs)

lemma execAll_history_prefix: "prefix (history c) (history (execAll ops c))"
proof (induction ops arbitrary: c)
  case Nil
  show ?case by simp
next
  case (Cons x ops)
  have "prefix (history c) (history (snd (exec x c)))" by (rule exec_history_prefix)
  also have "prefix (history (snd (exec x c))) (history (execAll ops (snd (exec x c))))"
    by (rule Cons.IH)
  finally show ?case by simp
qed


subsection \<open>The constructor and run\<close>

lemma Command_new_fields:
  assumes "Command_new newId user descriptor streamsArg = Inr c"
  shows "status c = NOT_STARTED \<and> history c = [] \<and> childProcess c = None \<and> exitCode c = None
         \<and> pid c = None \<and> startDate c = None \<and> readInputListeners c = 0 \<and> signalsSent c = []"
  using assms
  by (auto simp add: Command_new_def split: if_splits option.splits prod.splits)

lemma run_spawned:
  "run (Spawned p) now c =
     (None,
      c\<lparr> pid := p,
          status := RUNNING,
          childProcess := Some \<lparr> cpPid = p, exitListener = True, errorListener = True \<rparr>,
          startDate := Some now,
          logged := logged c @
            [LogDebug (''Running command: '' @ command c @ '' '' @ join '' '' (resolveCommandParameters (parameters c)))],
          readInputListeners := Suc (readInputListeners c) \<rparr>)"
  by (simp add: method_defs Let_def)

lemma run_throws:
  "run (SpawnThrows e) now c =
     (Some (ProcessError ''A problem occurred when running the process''),
      c\<lparr> startDate := Some now,
          logged := logged c @
            [LogDebug (''Running command: '' @ command c @ '' '' @ join '' '' (resolveCommandParameters (parameters c))),
             LogError ''A problem occurred when running the process''] \<rparr>)"
  by (simp add: method_defs Let_def)

subsection \<open>Counting entries\<close>

lemma recorded_count_OUT:
  "length (filter (\<lambda>h. type h = OUT) (concat (map (recorded 1) evs))) = length (filter isStdout evs)"
proof (induction evs)
  case Nil
  show ?case by simp
next
  case (Cons x evs)
  obtain now e where x: "x = (now, e)" by (cases x)
  show ?case unfolding x using Cons by (cases e) simp_all
qed

lemma recorded_count_ERR:
  "length (filter (\<lambda>h. type h = ERR) (concat (map (recorded 1) evs))) = length (filter isStderr evs)"
proof (induction evs)
  case Nil
  show ?case by simp
next
  case (Cons x evs)
  obtain now e where x: "x = (now, e)" by (cases x)
  show ?case unfolding x using Cons by (cases e) simp_all
qed

lemma recorded_count_IN:
  "length (filter (\<lambda>h. type h = IN) (concat (map (recorded 1) evs))) = length (filter isInput evs)"
proof (induction evs)
  case Nil
  show ?case by simp
next
  case (Cons x evs)
  obtain now e where x: "x = (now, e)" by (cases x)
  show ?case unfolding x using Cons by (cases e) simp_all
qed

lemma recorded_dates:
  assumes "\<forall>x \<in> set evs. t0 \<le> fst x"
  shows "\<forall>h \<in> set (concat (map (recorded k) evs)). t0 \<le> date h"
  using assms
proof (induction evs)
  case Nil
  show ?case by simp
next
  case (Cons x evs)
  obtain now e where x: "x = (now, e)" by (cases x)
  from Cons.prems have "t0 \<le> now" by (simp add: x)
  then have "\<forall>h \<in> set (recorded k (now, e)). t0 \<le> date h"
    by (cases e) simp_all
  with Cons show ?case by (auto simp add: x)
qed

subsection \<open>The history log\<close>

text \<open>
  Claim C9. Take a command as the constructor returns it, let \<open>run()\<close> spawn its process
  at time \<open>t0\<close>, and deliver any script of events whose clock readings are not before
  \<open>t0\<close>. Then the history is exactly the list of entries the output, error and input
  chunks of the script stand for, in the order of delivery: as many entries tagged
  \<open>OUT\<close>, \<open>ERR\<close> and \<open>IN\<close> as the script has chunks of standard output, of standard
  error and of input. \<open>startDate\<close> is \<open>t0\<close> and no entry is dated before it. Whatever
  is done to the object afterwards, the history it has now stays a prefix of the history
  it has then: no entry is changed or removed.
\<close>

theorem history_records_script:
  assumes fresh: "Command_new newId user descriptor streamsArg = Inr c0"
    and started: "run (Spawned p) t0 c0 = (r, c1)"
    and later: "\<forall>x \<in> set evs. t0 \<le> fst x"
  shows "r = None
         \<and> history (deliverAll evs c1) = concat (map (recorded 1) evs)
         \<and> length (filter (\<lambda>h. type h = OUT) (history (deliverAll evs c1))) = length (filter isStdout evs)
         \<and> length (filter (\<lambda>h. type h = ERR) (history (deliverAll evs c1))) = length (filter isStderr evs)
         \<and> length (filter (\<lambda>h. type h = IN) (history (deliverAll evs c1))) = length (filter isInput evs)
         \<and> startDate (deliverAll evs c1) = Some t0
         \<and> (\<forall>h \<in> set (history (deliverAll evs c1)). t0 \<le> date h)
         \<and> (\<forall>ops. prefix (history (deliverAll evs c1)) (history (execAll ops (deliverAll evs c1))))"
proof -
  note f = Command_new_fields [OF fresh]
  from started have r: "r = None"
    and c1: "childProcess c1 \<noteq> None" "readInputListeners c1 = 1" "history c1 = []" "startDate c1 = Some t0"
    using f by (auto simp add: run_spawned)
  have h: "history (deliverAll evs c1) = concat (map (recorded 1) evs)"
    using deliverAll_history [OF c1(1), of evs] c1 by simp
  have d: "startDate (deliverAll evs c1) = Some t0"
    using deliverAll_frame [of evs c1] c1 by simp
  have n: "length (filter (\<lambda>h. type h = OUT) (history (deliverAll evs c1))) = length (filter isStdout evs)"
    "length (filter (\<lambda>h. type h = ERR) (history (deliverAll evs c1))) = length (filter isStderr evs)"
    "length (filter (\<lambda>h. type h = IN) (history (deliverAll evs c1))) = length (filter isInput evs)"
    unfolding h by (rule recorded_count_OUT recorded_count_ERR recorded_count_IN)+
  have t: "\<forall>h \<in> set (history (deliverAll evs c1)). t0 \<le> date h"
    unfolding h by (rule recorded_dates [OF later])
  have g: "\<forall>ops. prefix (history (deliverAll evs c1)) (history (execAll ops (deliverAll evs c1)))"
    by (simp add: execAll_history_prefix)
  from r h n d t g show ?thesis by blast
qed

theorem history_records_script_witness:
  "history (deliverAll [(5, StdoutData ''a''), (6, InputData ''b''), (6, StderrData ''c''), (7, StdoutData ''d'')]
      (snd (run (Spawned (Some 42)) 3 sampleCommand)))
     = [\<lparr> data = ''a'', date = 5, type = OUT \<rparr>, \<lparr> data = ''b'', date = 6, type = IN \<rparr>,
        \<lparr> data = ''c'', date = 6, type = ERR \<rparr>, \<lparr> data = ''d'', date = 7, type = OUT \<rparr>]"
proof -
  have later: "\<forall>x \<in> set [(5, StdoutData ''a''), (6, InputData ''b''), (6, StderrData ''c''), (7::int, StdoutData ''d'')]. 3 \<le> fst x"
    by simp
  have started: "run (Spawned (Some 42)) 3 sampleCommand = (None, snd (run (Spawned (Some 42)) 3 sampleCommand))"
    by (simp add: run_spawned)
  show ?thesis
    using history_records_script [OF sampleCommand_constructed started later]
    by simp
qed

subsection \<open>Status under single steps\<close>

lemma deliver_status_terminal:
  assumes "terminal (status c)"
  shows "terminal (status (snd (deliver now e c)))"
  using assms
  by (cases e)
     (auto simp add: terminal_def handler_defs emitError_def onInputData_funpow_frame split: option.split)

lemma killing_status_terminal:
  assumes "terminal (status c)"
  shows "terminal (status (snd (stop outcome c))) \<and> terminal (status (snd (kill outcome c)))"
  using assms
  by (cases outcome)
     (auto simp add: terminal_def method_defs handler_defs Let_def split: option.split)

lemma exec_status_terminal:
  assumes "terminal (status c)" and "\<not> isSpawn x"
  shows "terminal (status (snd (exec x c)))"
proof (cases x)
  case (Run spawned now)
  with assms show ?thesis by (cases spawned) (simp_all add: run_throws)
next
  case (Deliver now e)
  with assms show ?thesis by (simp add: deliver_status_terminal)
next
  case (Stop outcome)
  with assms killing_status_terminal [of c outcome] show ?thesis by simp
next
  case (Kill outcome)
  with assms killing_status_terminal [of c outcome] show ?thesis by simp
qed (use assms in \<open>simp_all add: method_defs\<close>)

lemma exec_status_unassigned:
  assumes "\<not> assignsStatus x"
  shows "status (snd (exec x c)) = status c"
proof (cases x)
  case (Run spawned now)
  with assms show ?thesis by (cases spawned) (simp_all add: run_throws)
next
  case (Deliver now e)
  with assms show ?thesis
    by (cases e) (simp_all add: handler_defs onInputData_funpow_frame split: option.split)
next
  case (Stop outcome)
  with assms show ?thesis
    by (cases outcome) (simp_all add: method_defs Let_def split: option.split)
next
  case (Kill outcome)
  with assms show ?thesis
    by (cases outcome) (simp_all add: method_defs Let_def split: option.split)
qed (simp_all add: method_defs)

lemma exec_status_started:
  assumes "status c \<noteq> NOT_STARTED"
  shows "status (snd (exec x c)) \<noteq> NOT_STARTED"
proof (cases x)
  case (Run spawned now)
  with assms show ?thesis by (cases spawned) (simp_all add: run_throws run_spawned)
next
  case (Deliver now e)
  with assms show ?thesis
    by (cases e)
       (simp_all add: handler_defs emitError_def onInputData_funpow_frame split: option.split)
next
  case (Stop outcome)
  with assms show ?thesis
    by (cases outcome) (simp_all add: method_defs handler_defs Let_def split: option.split)
next
  case (Kill outcome)
  with assms show ?thesis
    by (cases outcome) (simp_all add: method_defs handler_defs Let_def split: option.split)
qed (use assms in \<open>simp_all add: method_defs\<close>)

subsection \<open>Status under sequences of steps\<close>

lemma execAll_status_terminal:
  assumes "terminal (status c)" and "\<forall>x \<in> set ops. \<not> isSpawn x"
  shows "terminal (status (execAll ops c))"
  using assms
proof (induction ops arbitrary: c)
  case Nil
  then show ?case by simp
next
  case (Cons x ops)
  then have "terminal (status (snd (exec x c)))"
    by (simp add: exec_status_terminal)
  with Cons show ?case by simp
qed

lemma execAll_status_unassigned:
  assumes "\<forall>x \<in> set ops. \<not> assignsStatus x"
  shows "status (execAll ops c) = status c"
  using assms
proof (induction ops arbitrary: c)
  case Nil
  show ?case by simp
next
  case (Cons x ops)
  then have "status (snd (exec x c)) = status c"
    by (simp add: exec_status_unassigned)
  with Cons show ?case by simp
qed

lemma execAll_status_started:
  assumes "status c \<noteq> NOT_STARTED"
  shows "status (execAll ops c) \<noteq> NOT_STARTED"
  using assms
proof (induction ops arbitrary: c)
  case Nil
  then show ?case by simp
next
  case (Cons x ops)
  then have "status (snd (exec x c)) \<noteq> NOT_STARTED"
    by (simp add: exec_status_started)
  with Cons show ?case by simp
qed

subsection \<open>The state machine\<close>

text \<open>
  Claim C2 says that a terminal status is never left. The listeners assign \<open>status\<close>
  whatever it is, and \<open>run()\<close> does not look at it: after an \<open>error\<close> event the status is
  \<open>STOPPED\<close>, and the \<open>exit\<close> event of the same process then makes it \<open>FINISHED\<close>; a
  second \<open>run()\<close> on a finished command makes it \<open>RUNNING\<close> again.
\<close>

theorem status_after_terminal_counterexample:
  "status (execAll [Run (Spawned (Some 42)) 3, Deliver 5 (ErrorEvent ''write EPIPE'')] sampleCommand) = STOPPED
   \<and> status (execAll [Run (Spawned (Some 42)) 3, Deliver 5 (ErrorEvent ''write EPIPE''),
                      Deliver 9 (Exit (Some 0) None)] sampleCommand) = FINISHED
   \<and> status (execAll [Run (Spawned (Some 42)) 3, Deliver 9 (Exit (Some 0) None)] sampleCommand) = FINISHED
   \<and> status (execAll [Run (Spawned (Some 42)) 3, Deliver 9 (Exit (Some 0) None),
                      Run (Spawned (Some 43)) 12] sampleCommand) = RUNNING"
  by (simp add: run_spawned method_defs handler_defs sampleCommand_def Let_def)

text \<open>
  Claim C2, as the code has it. A command is constructed with status \<open>NOT_STARTED\<close>, and
  a \<open>run()\<close> whose \<open>spawn\<close> returns throws nothing and leaves the status \<open>RUNNING\<close>. From
  a terminal status, every sequence of events and operations without such a \<open>run()\<close>
  ends in a terminal status (an \<open>exit\<close> or \<open>error\<close> event may replace one terminal status
  by another). Steps other than a successful \<open>run()\<close>, an \<open>exit\<close> event and an \<open>error\<close>
  event (delivered, or emitted while \<open>stop()\<close> or \<open>kill()\<close> signals the process) leave the
  status as it is. Once the status is not \<open>NOT_STARTED\<close> it never is again.
\<close>

theorem status_lifecycle:
  "(\<forall>c0. Command_new newId user descriptor streamsArg = Inr c0 \<longrightarrow> status c0 = NOT_STARTED)
   \<and> fst (run (Spawned p) now c) = None
   \<and> status (snd (run (Spawned p) now c)) = RUNNING
   \<and> (terminal (status c) \<longrightarrow> (\<forall>x \<in> set ops. \<not> isSpawn x) \<longrightarrow> terminal (status (execAll ops c)))
   \<and> ((\<forall>x \<in> set ops. \<not> assignsStatus x) \<longrightarrow> status (execAll ops c) = status c)
   \<and> (status c \<noteq> NOT_STARTED \<longrightarrow> status (execAll ops c) \<noteq> NOT_STARTED)"
proof -
  have a: "\<forall>c0. Command_new newId user descriptor streamsArg = Inr c0 \<longrightarrow> status c0 = NOT_STARTED"
    using Command_new_fields by blast
  have b: "fst (run (Spawned p) now c) = None" "status (snd (run (Spawned p) now c)) = RUNNING"
    by (simp_all add: run_spawned)
  from a b execAll_status_terminal [of c ops] execAll_status_unassigned [of ops c]
    execAll_status_started [of c ops]
  show ?thesis by blast
qed

theorem status_lifecycle_witness:
  "status sampleCommand = NOT_STARTED
   \<and> status (snd (run (Spawned (Some 42)) 3 sampleCommand)) = RUNNING
   \<and> terminal (status (execAll [Stop Signalled, Deliver 10 (ErrorEvent ''EPIPE''), SetParameters []]
        (execAll [Run (Spawned (Some 42)) 3, Deliver 9 (Exit (Some 1) None)] sampleCommand)))
   \<and> status (execAll [Stop Signalled, SetParameters [], Deliver 4 (StdoutData ''x'')]
        (snd (run (Spawned (Some 42)) 3 sampleCommand))) = RUNNING"
proof -
  let ?c = "execAll [Run (Spawned (Some 42)) 3, Deliver 9 (Exit (Some 1) None)] sampleCommand"
  let ?ops = "[Stop Signalled, Deliver 10 (ErrorEvent ''EPIPE''), SetParameters []]"
  let ?r = "snd (run (Spawned (Some 42)) 3 sampleCommand)"
  let ?quiet = "[Stop Signalled, SetParameters [], Deliver 4 (StdoutData ''x'')]"
  have t: "terminal (status ?c)"
    by (simp add: run_spawned handler_defs terminal_def sampleCommand_def)
  have s: "\<forall>x \<in> set ?ops. \<not> isSpawn x" by simp
  have q: "\<forall>x \<in> set ?quiet. \<not> assignsStatus x" by simp
  from status_lifecycle [of "''id-1''" sampleUser "Some sampleDescriptor" "Some sampleStreams" "Some 42" 3 ?c ?ops]
    t s sampleCommand_constructed
  have 1: "status sampleCommand = NOT_STARTED" "terminal (status (execAll ?ops ?c))"
    by blast+
  from status_lifecycle [of "''id-1''" sampleUser "Some sampleDescriptor" "Some sampleStreams" "Some 42" 3 ?r ?quiet] q
  have 2: "status (execAll ?quiet ?r) = status ?r"
    by blast
  from status_lifecycle [of "''id-1''" sampleUser "Some sampleDescriptor" "Some sampleStreams" "Some 42" 3 sampleCommand "[]"]
  have 3: "status ?r = RUNNING" by blast
  from 1 2 3 show ?thesis by simp
qed

subsection \<open>Listeners on the child process\<close>

lemma run_listeners:
  "childProcess (snd (run (Spawned p) now c)) = Some \<lparr> cpPid = p, exitListener = True, errorListener = True \<rparr>"
  by (simp add: run_spawned)

lemma killing_childProcess:
  "childProcess (snd (stop outcome c)) = childProcess c \<and> childProcess (snd (kill outcome c)) = childProcess c"
  by (cases outcome)
     (simp_all add: method_defs handler_defs Let_def split: option.split)

lemma exec_exitListening:
  assumes "exitListening c" and "\<not> removesExit x"
  shows "exitListening (snd (exec x c))"
proof (cases x)
  case (Run spawned now)
  with assms show ?thesis
    by (cases spawned) (simp_all add: run_throws run_spawned exitListening_def)
next
  case (Deliver now e)
  with assms deliver_frame [of now e c] show ?thesis by (simp add: exitListening_def)
next
  case (Stop outcome)
  with assms killing_childProcess [of outcome c] show ?thesis by (simp add: exitListening_def)
next
  case (Kill outcome)
  with assms killing_childProcess [of outcome c] show ?thesis by (simp add: exitListening_def)
next
  case (RemoveAllEventListeners event)
  with assms show ?thesis
    by (auto simp add: removeAllEventListeners_def exitListening_def split: option.splits)
qed (use assms in \<open>simp_all add: method_defs exitListening_def\<close>)


lemma execAll_exitListening:
  assumes "exitListening c" and "\<forall>x \<in> set ops. \<not> removesExit x"
  shows "exitListening (execAll ops c)"
  using assms
proof (induction ops arbitrary: c)
  case Nil
  then show ?case by simp
next
  case (Cons x ops)
  then have "exitListening (snd (exec x c))" by (simp add: exec_exitListening)
  with Cons show ?case by simp
qed


subsection \<open>Before any process is spawned\<close>

lemma exec_no_child:
  assumes "childProcess c = None" and "\<not> isSpawn x"
  shows "childProcess (snd (exec x c)) = None \<and> signalsSent (snd (exec x c)) = signalsSent c"
proof (cases x)
  case (Run spawned now)
  with assms show ?thesis by (cases spawned) (simp_all add: run_throws)
next
  case (Deliver now e)
  with assms show ?thesis
    by (cases e)
       (simp_all add: handler_defs emitError_def onInputData_funpow_frame)
next
  case (Stop outcome)
  with assms show ?thesis by (simp add: method_defs Let_def)
next
  case (Kill outcome)
  with assms show ?thesis by (simp add: method_defs Let_def)
qed (use assms in \<open>simp_all add: method_defs\<close>)

lemma execAll_no_child:
  assumes "childProcess c = None" and "\<forall>x \<in> set ops. \<not> isSpawn x"
  shows "childProcess (execAll ops c) = None \<and> signalsSent (execAll ops c) = signalsSent c"
  using assms
proof (induction ops arbitrary: c)
  case Nil
  then show ?case by simp
next
  case (Cons x ops)
  then have "childProcess (snd (exec x c)) = None \<and> signalsSent (snd (exec x c)) = signalsSent c"
    by (simp add: exec_no_child)
  with Cons show ?case by simp
qed

subsection \<open>Exit events\<close>

text \<open>
  Claim C1 says that every \<open>exit\<close> event of a spawned child process sets the status and
  the exit code. The callback that does so is a listener on the child process, and the
  public method \<open>removeAllEventListeners\<close> removes it: after
  \<open>removeAllEventListeners('exit')\<close> the command still has its child process, and the
  exit of that process with code 1 leaves the status \<open>RUNNING\<close> and the exit code \<open>null\<close>.
\<close>

theorem exit_after_removal_counterexample:
  "childProcess (execAll [Run (Spawned (Some 42)) 3, RemoveAllEventListeners (Some ''exit'')] sampleCommand)
     = Some \<lparr> cpPid = Some 42, exitListener = False, errorListener = True \<rparr>
   \<and> status (execAll [Run (Spawned (Some 42)) 3, RemoveAllEventListeners (Some ''exit''),
                      Deliver 9 (Exit (Some 1) None)] sampleCommand) = RUNNING
   \<and> exitCode (execAll [Run (Spawned (Some 42)) 3, RemoveAllEventListeners (Some ''exit''),
                        Deliver 9 (Exit (Some 1) None)] sampleCommand) = None"
  by (simp add: run_spawned removeAllEventListeners_def sampleCommand_def)

text \<open>
  Claim C1, as the code has it. A \<open>run()\<close> that spawns a process puts the exit listener
  on it, and the listener stays through every event and operation other than a
  \<open>removeAllEventListeners\<close> for \<open>exit\<close> or for all events. While the child process carries
  the listener, an \<open>exit\<close> event throws nothing and runs the exit callback, which sets the
  status from the terminating signal and the exit code: \<open>SIGKILL\<close> gives \<open>KILLED\<close>;
  \<open>SIGTERM\<close> gives \<open>STOPPED\<close>; no signal and an exit code above zero gives \<open>ERROR\<close>; no
  signal and exit code zero, or no exit code, gives \<open>FINISHED\<close>; and \<open>exitCode\<close> becomes
  the code that was reported, \<open>null\<close> included. Without the listener an \<open>exit\<close> event
  changes nothing.
\<close>

theorem exit_status_mapping:
  "exitListening (snd (run (Spawned p) t0 c0))
   \<and> (exitListening c \<longrightarrow> (\<forall>x \<in> set ops. \<not> removesExit x) \<longrightarrow> exitListening (execAll ops c))
   \<and> (exitListening c \<longrightarrow> deliver now (Exit code signal) c = (None, onExit code signal c))
   \<and> (\<not> exitListening c \<longrightarrow> deliver now (Exit code signal) c = (None, c))
   \<and> status (onExit code (Some ''SIGKILL'') c) = KILLED
   \<and> status (onExit code (Some ''SIGTERM'') c) = STOPPED
   \<and> (\<forall>n. 0 < n \<longrightarrow> status (onExit (Some n) None c) = ERROR)
   \<and> status (onExit (Some 0) None c) = FINISHED
   \<and> status (onExit None None c) = FINISHED
   \<and> exitCode (onExit code signal c) = code"
proof -
  have a: "exitListening (snd (run (Spawned p) t0 c0))"
    by (simp add: run_listeners exitListening_def)
  have b: "exitListening c \<longrightarrow> (\<forall>x \<in> set ops. \<not> removesExit x) \<longrightarrow> exitListening (execAll ops c)"
    using execAll_exitListening by blast
  have d: "exitListening c \<longrightarrow> deliver now (Exit code signal) c = (None, onExit code signal c)"
    "\<not> exitListening c \<longrightarrow> deliver now (Exit code signal) c = (None, c)"
    by (auto simp add: exitListening_def split: option.splits)
  have m: "status (onExit code (Some ''SIGKILL'') c) = KILLED"
    "status (onExit code (Some ''SIGTERM'') c) = STOPPED"
    "\<forall>n. 0 < n \<longrightarrow> status (onExit (Some n) None c) = ERROR"
    "status (onExit (Some 0) None c) = FINISHED"
    "status (onExit None None c) = FINISHED"
    "exitCode (onExit code signal c) = code"
    by (simp_all add: onExit_def)
  from a b d m show ?thesis by (intro conjI)
qed

theorem exit_status_mapping_witness:
  "status (snd (deliver 9 (Exit None (Some ''SIGKILL'')) (snd (run (Spawned (Some 42)) 3 sampleCommand)))) = KILLED
   \<and> status (snd (deliver 9 (Exit None (Some ''SIGTERM'')) (snd (run (Spawned (Some 42)) 3 sampleCommand)))) = STOPPED
   \<and> status (snd (deliver 9 (Exit (Some 1) None) (snd (run (Spawned (Some 42)) 3 sampleCommand)))) = ERROR
   \<and> status (snd (deliver 9 (Exit (Some 0) None) (snd (run (Spawned (Some 42)) 3 sampleCommand)))) = FINISHED
   \<and> exitCode (snd (deliver 9 (Exit (Some 1) None) (snd (run (Spawned (Some 42)) 3 sampleCommand)))) = Some 1
   \<and> deliver 9 (Exit (Some 1) None) sampleCommand = (None, sampleCommand)"
proof -
  let ?c = "snd (run (Spawned (Some 42)) 3 sampleCommand)"
  note m = exit_status_mapping [where p = "Some 42" and ?t0.0 = 3 and ?c0.0 = sampleCommand and c = ?c and now = 9 and ops = "[]"]
  have l: "exitListening ?c" using m [of None None] by blast
  from m [of None "Some ''SIGKILL''"] l
  have 1: "status (snd (deliver 9 (Exit None (Some ''SIGKILL'')) ?c)) = KILLED" by simp
  from m [of None "Some ''SIGTERM''"] l
  have 2: "status (snd (deliver 9 (Exit None (Some ''SIGTERM'')) ?c)) = STOPPED" by simp
  from m [of "Some 1" None] l
  have 3: "status (snd (deliver 9 (Exit (Some 1) None) ?c)) = ERROR"
    "exitCode (snd (deliver 9 (Exit (Some 1) None) ?c)) = Some 1" by simp_all
  from m [of "Some 0" None] l
  have 4: "status (snd (deliver 9 (Exit (Some 0) None) ?c)) = FINISHED" by simp
  have n: "\<not> exitListening sampleCommand" by (simp add: exitListening_def sampleCommand_def)
  from exit_status_mapping [where c = sampleCommand and now = 9 and code = "Some 1" and signal = None and ops = "[]"
      and p = None and ?t0.0 = 0 and ?c0.0 = sampleCommand] n
  have 5: "deliver 9 (Exit (Some 1) None) sampleCommand = (None, sampleCommand)" by blast
  from 1 2 3 4 5 show ?thesis by (intro conjI)
qed

subsection \<open>Failure of spawn\<close>

text \<open>
  Claim C4. When \<open>spawn\<close> throws inside \<open>run()\<close> on a command whose status is
  \<open>NOT_STARTED\<close>, \<open>run()\<close> throws a \<open>ProcessError\<close> and the status is still
  \<open>NOT_STARTED\<close>; no child process, pid or input listener is recorded.
\<close>

theorem run_spawn_failure:
  assumes "status c = NOT_STARTED"
  shows "fst (run (SpawnThrows e) now c) = Some (ProcessError ''A problem occurred when running the process'')
         \<and> status (snd (run (SpawnThrows e) now c)) = NOT_STARTED
         \<and> childProcess (snd (run (SpawnThrows e) now c)) = childProcess c
         \<and> pid (snd (run (SpawnThrows e) now c)) = pid c
         \<and> readInputListeners (snd (run (SpawnThrows e) now c)) = readInputListeners c"
  using assms by (simp add: run_throws)

theorem run_spawn_failure_witness:
  "fst (run (SpawnThrows ''spawn EINVAL'') 3 sampleCommand)
     = Some (ProcessError ''A problem occurred when running the process'')
   \<and> status (snd (run (SpawnThrows ''spawn EINVAL'') 3 sampleCommand)) = NOT_STARTED"
proof -
  have s: "status sampleCommand = NOT_STARTED" by (simp add: sampleCommand_def)
  from run_spawn_failure [OF s, of "''spawn EINVAL''" 3] show ?thesis by simp
qed

subsection \<open>Error events\<close>




subsection \<open>Setting the parameters\<close>

text \<open>
  Claim C8 says that \<open>setParameters\<close> is rejected or without effect unless the status is
  \<open>NOT_STARTED\<close>. The method has no guard: on a running command it returns normally and
  replaces the stored parameters.
\<close>

theorem setParameters_running_counterexample:
  "status (snd (run (Spawned (Some 42)) 3 sampleCommand)) = RUNNING
   \<and> parameters (snd (run (Spawned (Some 42)) 3 sampleCommand)) = [Literal ''hello'']
   \<and> fst (exec (SetParameters [Literal ''bye'']) (snd (run (Spawned (Some 42)) 3 sampleCommand))) = None
   \<and> parameters (snd (exec (SetParameters [Literal ''bye'']) (snd (run (Spawned (Some 42)) 3 sampleCommand))))
       = [Literal ''bye'']"
  by (simp add: run_spawned setParameters_def sampleCommand_def)

text \<open>
  Claim C8, as the code has it. In every status \<open>setParameters\<close> throws nothing and
  stores the list it is given as the parameters of the command, changing no other field
  (so the status stays what it was).
\<close>

theorem setParameters_any_status:
  "exec (SetParameters ps) c = (None, setParameters ps c)
   \<and> getParameters (setParameters ps c) = ps
   \<and> setParameters ps c = c\<lparr> parameters := ps \<rparr>
   \<and> status (setParameters ps c) = status c"
  by (simp add: setParameters_def getParameters_def)

theorem setParameters_any_status_witness:
  "getParameters (setParameters [Literal ''bye'']
      (execAll [Run (Spawned (Some 42)) 3, Deliver 9 (Exit (Some 0) None)] sampleCommand)) = [Literal ''bye'']
   \<and> status (setParameters [Literal ''bye'']
      (execAll [Run (Spawned (Some 42)) 3, Deliver 9 (Exit (Some 0) None)] sampleCommand)) = FINISHED"
proof -
  let ?c = "execAll [Run (Spawned (Some 42)) 3, Deliver 9 (Exit (Some 0) None)] sampleCommand"
  have s: "status ?c = FINISHED" by (simp add: run_spawned handler_defs)
  from setParameters_any_status [of "[Literal ''bye'']" ?c]
  have g: "getParameters (setParameters [Literal ''bye''] ?c) = [Literal ''bye'']"
    and t: "status (setParameters [Literal ''bye''] ?c) = status ?c"
    by blast+
  from t s have "status (setParameters [Literal ''bye''] ?c) = FINISHED" by (simp only:)
  with g show ?thesis by (intro conjI)
qed

subsection \<open>Stopping what was never started\<close>

text \<open>
  Claim C10. Take a command as the constructor returns it and apply any events and
  operations among which no \<open>run()\<close> spawned a process. The command then has no child
  process, and \<open>stop()\<close> and \<open>kill()\<close> do nothing but write their debug line, whatever
  the runtime would have answered to a signal: they throw nothing, no signal has been
  sent, and status, exit code, history and pid are what they were.
\<close>

theorem stop_kill_without_child:
  assumes "Command_new newId user descriptor streamsArg = Inr c0"
    and "\<forall>x \<in> set ops. \<not> isSpawn x"
    and "c = execAll ops c0"
  shows "childProcess c = None
         \<and> stop outcome c = (None, c\<lparr> logged := logged c @ [LogDebug (''Stopping command '' @ nameAlias c)] \<rparr>)
         \<and> kill outcome c = (None, c\<lparr> logged := logged c @ [LogDebug (''Killing command '' @ nameAlias c)] \<rparr>)
         \<and> signalsSent (snd (stop outcome c)) = [] \<and> signalsSent (snd (kill outcome c)) = []
         \<and> status (snd (stop outcome c)) = status c \<and> status (snd (kill outcome c)) = status c
         \<and> exitCode (snd (stop outcome c)) = exitCode c \<and> exitCode (snd (kill outcome c)) = exitCode c
         \<and> history (snd (stop outcome c)) = history c \<and> history (snd (kill outcome c)) = history c
         \<and> pid (snd (stop outcome c)) = pid c \<and> pid (snd (kill outcome c)) = pid c"
proof -
  note f = Command_new_fields [OF assms(1)]
  from f have "childProcess c0 = None" by simp
  from execAll_no_child [OF this assms(2)] assms(3) f
  have n: "childProcess c = None" and s: "signalsSent c = []" by simp_all
  from n s show ?thesis by (simp add: stop_def kill_def Let_def)
qed

theorem stop_kill_without_child_witness:
  "stop KillThrows (execAll [Run (SpawnThrows ''spawn EINVAL'') 3, Deliver 4 (InputData ''y'')] sampleCommand)
     = (None, (execAll [Run (SpawnThrows ''spawn EINVAL'') 3, Deliver 4 (InputData ''y'')] sampleCommand)
          \<lparr> logged := logged (execAll [Run (SpawnThrows ''spawn EINVAL'') 3, Deliver 4 (InputData ''y'')] sampleCommand)
               @ [LogDebug ''Stopping command greet''] \<rparr>)
   \<and> status (snd (kill KillThrows sampleCommand)) = NOT_STARTED
   \<and> signalsSent (snd (kill KillThrows sampleCommand)) = []"
proof -
  let ?ops = "[Run (SpawnThrows ''spawn EINVAL'') 3, Deliver 4 (InputData ''y'')]"
  have a: "\<forall>x \<in> set ?ops. \<not> isSpawn x" by simp
  have b: "\<forall>x \<in> set ([] :: operation list). \<not> isSpawn x" by simp
  have n: "nameAlias (execAll ?ops sampleCommand) = ''greet''"
    by (simp add: run_throws sampleCommand_def)
  have t: "status sampleCommand = NOT_STARTED" by (simp add: sampleCommand_def)
  from stop_kill_without_child [OF sampleCommand_constructed a refl, of KillThrows]
  have "stop KillThrows (execAll ?ops sampleCommand)
     = (None, (execAll ?ops sampleCommand)
          \<lparr> logged := logged (execAll ?ops sampleCommand)
               @ [LogDebug (''Stopping command '' @ nameAlias (execAll ?ops sampleCommand))] \<rparr>)"
    by blast
  then have 1: "stop KillThrows (execAll ?ops sampleCommand)
     = (None, (execAll ?ops sampleCommand)
          \<lparr> logged := logged (execAll ?ops sampleCommand) @ [LogDebug ''Stopping command greet''] \<rparr>)"
    by (simp only: n append.simps)
  have e: "sampleCommand = execAll [] sampleCommand" by simp
  from stop_kill_without_child [OF sampleCommand_constructed b e, of KillThrows]
  have k: "status (snd (kill KillThrows sampleCommand)) = status sampleCommand"
    and 3: "signalsSent (snd (kill KillThrows sampleCommand)) = []"
    by blast+
  from k t have 2: "status (snd (kill KillThrows sampleCommand)) = NOT_STARTED" by (simp only:)
  from 1 2 3 show ?thesis by (intro conjI)
qed

subsection \<open>The marker and the replacement\<close>

lemma findMarker_split:
  assumes "findMarker prev t = Some (pre, post)"
  shows "t = pre @ dollar # post \<and> findMarker prev pre = None"
  using assms
proof (induction t arbitrary: prev pre)
  case Nil
  then show ?case by simp
next
  case (Cons c cs)
  show ?case
  proof (cases "c = dollar \<and> prev \<noteq> Some backslash")
    case True
    with Cons.prems show ?thesis by simp
  next
    case False
    with Cons.prems obtain pre' where f: "findMarker (Some c) cs = Some (pre', post)" and p: "pre = c # pre'"
      by (auto split: option.splits)
    from Cons.IH [OF f] False p show ?thesis by auto
  qed
qed

lemma findMarker_none:
  assumes "dollar \<notin> set t"
  shows "findMarker prev t = None"
  using assms by (induction t arbitrary: prev) auto

text \<open>
  The match is the first dollar sign that no backslash precedes: none stands before it
  (\<open>findMarker_split\<close>), no backslash precedes it, and the search fails exactly when
  every dollar sign of the template follows a backslash.
\<close>

lemma findMarker_unescaped:
  assumes "findMarker prev t = Some (pre, post)"
  shows "(if pre = [] then prev else Some (last pre)) \<noteq> Some backslash"
  using assms
proof (induction t arbitrary: prev pre)
  case Nil
  then show ?case by simp
next
  case (Cons c cs)
  show ?case
  proof (cases "c = dollar \<and> prev \<noteq> Some backslash")
    case True
    with Cons.prems show ?thesis by auto
  next
    case False
    with Cons.prems obtain pre' where f: "findMarker (Some c) cs = Some (pre', post)" and p: "pre = c # pre'"
      by (auto split: option.splits)
    from Cons.IH [OF f] p show ?thesis by (auto split: if_splits)
  qed
qed

lemma findMarker_None_iff:
  "findMarker prev t = None
    \<longleftrightarrow> (\<forall>i < length t. t ! i = dollar \<longrightarrow> (if i = 0 then prev else Some (t ! (i - 1))) = Some backslash)"
proof (induction t arbitrary: prev)
  case Nil
  show ?case by simp
next
  case (Cons c cs)
  have shift: "(\<forall>i < length (c # cs). (c # cs) ! i = dollar \<longrightarrow> (if i = 0 then prev else Some ((c # cs) ! (i - 1))) = Some backslash)
     \<longleftrightarrow> ((c = dollar \<longrightarrow> prev = Some backslash)
          \<and> (\<forall>i < length cs. cs ! i = dollar \<longrightarrow> (if i = 0 then Some c else Some (cs ! (i - 1))) = Some backslash))"
    (is "?L \<longleftrightarrow> ?H \<and> ?R")
  proof
    assume l: ?L
    have h: ?H using l [rule_format, of 0] by simp
    have r: ?R
    proof (intro allI impI)
      fix i assume "i < length cs" "cs ! i = dollar"
      with l [rule_format, of "Suc i"] show "(if i = 0 then Some c else Some (cs ! (i - 1))) = Some backslash"
        by (cases i) simp_all
    qed
    from h r show "?H \<and> ?R" ..
  next
    assume hr: "?H \<and> ?R"
    show ?L
    proof (intro allI impI)
      fix i assume i: "i < length (c # cs)" "(c # cs) ! i = dollar"
      show "(if i = 0 then prev else Some ((c # cs) ! (i - 1))) = Some backslash"
      proof (cases i)
        case 0
        with i hr show ?thesis by simp
      next
        case (Suc j)
        with i have "j < length cs" "cs ! j = dollar" by simp_all
        with hr have "(if j = 0 then Some c else Some (cs ! (j - 1))) = Some backslash" by blast
        with Suc show ?thesis by (cases j) simp_all
      qed
    qed
  qed
  show ?case
    unfolding shift using Cons [of "Some c"]
    by (auto split: option.splits)
qed

lemma getSubstitution_plain:
  assumes "dollar \<notin> set replacement"
  shows "getSubstitution matched pre post replacement = replacement"
  using assms
  by (induction matched pre post replacement rule: getSubstitution.induct) auto

lemma resolveParameter_plain_answer:
  assumes "findMarker None template = Some (pre, post)" and "dollar \<notin> set ans"
  shows "resolveParameter (Question template (Some ans)) = Some (pre @ ans @ post)"
  using assms by (simp add: replaceFirstMarker_def getSubstitution_plain)

lemma resolveParameter_no_marker:
  assumes "findMarker None template = None"
  shows "resolveParameter (Question template ans) = ans"
  using assms by simp

lemma resolveCommandParameters_literals:
  "resolveCommandParameters (map Literal ss) = map Some ss"
  by (simp add: resolveCommandParameters_def)

lemma resolveCommandParameters_nth:
  assumes "i < length ps"
  shows "resolveCommandParameters ps ! i = resolveParameter (ps ! i)"
  using assms by (simp add: resolveCommandParameters_def)

text \<open>
  The resolver on the inputs the description of the program gives: literals pass through,
  the first unescaped marker takes the answer, later markers stay, and a template whose
  only marker is escaped resolves to the answer alone.
\<close>

lemma resolveCommandParameters_examples:
  "resolveCommandParameters
     [Literal ''-v'', Question ''--name=$'' (Some ''bob''), Question ''a$b$c'' (Some ''X''),
      Question (''price: '' @ [backslash] @ ''$100'') (Some ''ignored'')]
   = [Some ''-v'', Some ''--name=bob'', Some ''aXb$c'', Some ''ignored'']"
  by (simp add: resolveCommandParameters_def replaceFirstMarker_def dollar_def backslash_def
      ampersand_def backtick_def quote_def)

text \<open>
  Claim C3 says that the first unescaped marker is replaced by the answer. The answer is
  handed to \<open>String.prototype.replace\<close> as the replacement string, which expands the
  patterns \<open>$$\<close>, \<open>$&\<close>, \<open>$`\<close> and \<open>$'\<close> in it: the answer \<open>$$\<close> puts a single \<open>$\<close>
  in place of the marker, \<open>a$&b\<close> puts \<open>a$b\<close>, and \<open>$'\<close> puts the rest of the
  template. For an answer without \<open>$\<close> the claim holds
  (\<open>resolveParameter_plain_answer\<close>, \<open>resolveParameter_no_marker\<close>,
  \<open>resolveCommandParameters_literals\<close>).
\<close>

theorem answer_with_dollar_patterns:
  "resolveCommandParameters [Question ''--name=$'' (Some ''$$'')] = [Some ''--name=$'']
   \<and> resolveCommandParameters [Question ''--between=$.'' (Some ''a$&b'')] = [Some ''--between=a$b.'']
   \<and> resolveCommandParameters [Question ''x=$;'' (Some [dollar, quote])] = [Some ''x=;;'']"
  by (simp add: resolveCommandParameters_def replaceFirstMarker_def dollar_def backslash_def
      ampersand_def backtick_def quote_def)

text \<open>
  Claim C6 says that an absent answer is resolved to the text \<open>undefined\<close>, also when the
  answer alone is used. A template without an unescaped marker returns \<open>param.answer\<close>
  itself, which is the value \<open>undefined\<close> and no string.
\<close>

theorem absent_answer_counterexample:
  "resolveCommandParameters [Question ''--verbose'' None] = [None]
   \<and> resolveCommandParameters [Question ''--verbose'' None] \<noteq> [Some ''undefined'']"
  by (simp add: resolveCommandParameters_def dollar_def backslash_def)

text \<open>
  Claim C6, as the code has it. For an object parameter whose answer is absent: when the
  template has an unescaped marker, the first one is replaced by the text \<open>undefined\<close>;
  when it has none, the resolved element is the absent answer itself. Each element of the
  list is resolved on its own, in place.
\<close>

theorem absent_answer:
  "resolveParameter (Question template None)
     = (case findMarker None template of
          None \<Rightarrow> None
        | Some (pre, post) \<Rightarrow> Some (pre @ ''undefined'' @ post))
   \<and> (\<forall>i < length ps. resolveCommandParameters ps ! i = resolveParameter (ps ! i))"
proof -
  have "getSubstitution [dollar] pre post ''undefined'' = ''undefined''" for pre post
    by (rule getSubstitution_plain) (simp add: dollar_def)
  then show ?thesis
    by (auto simp add: replaceFirstMarker_def resolveCommandParameters_nth split: option.splits)
qed

theorem absent_answer_witness:
  "resolveCommandParameters [Literal ''-l'', Question ''--name=$'' None, Question ''--verbose'' None]
     = [Some ''-l'', Some ''--name=undefined'', None]"
proof -
  let ?ps = "[Literal ''-l'', Question ''--name=$'' None, Question ''--verbose'' None]"
  have m: "findMarker None ''--name=$'' = Some (''--name='', [])" "findMarker None ''--verbose'' = None"
    by (simp_all add: dollar_def backslash_def)
  from absent_answer [of "''--name=$''" ?ps] m
  have 1: "resolveParameter (Question ''--name=$'' None) = Some ''--name=undefined''" by simp
  from absent_answer [of "''--verbose''" ?ps] m
  have 2: "resolveParameter (Question ''--verbose'' None) = None" by simp
  from 1 2 show ?thesis by (simp add: resolveCommandParameters_def)
qed

subsection \<open>Validation in the constructor\<close>

lemma Command_new_rejects_descriptor:
  assumes "\<not> commandDescriptorSchema descriptor"
  shows "Command_new newId user descriptor streamsArg
           = Inl (ValidationError ''Could not create command instance: command descriptor not provided'')"
  using assms by (simp add: Command_new_def)

lemma Command_new_rejects_missing_command:
  "Command_new newId user (Some (d\<lparr> dCommand := None \<rparr>)) streamsArg
     = Inl (ValidationError ''Could not create command instance: command descriptor not provided'')"
  by (simp add: Command_new_def)

lemma Command_new_rejects_streams:
  assumes "commandDescriptorSchema descriptor" and "\<not> runCommandArgsSchema (Some s)"
  shows "Command_new newId user descriptor (Some s)
           = Inl (ValidationError ''Could not create command instance: IO streams not provided'')"
  using assms by (simp add: Command_new_def)

lemma Command_new_accepts:
  assumes "commandDescriptorSchema descriptor" and "runCommandArgsSchema streamsArg"
  shows "\<exists>c. Command_new newId user descriptor streamsArg = Inr c"
  using assms
  by (cases descriptor; cases streamsArg) (auto simp add: Command_new_def split: option.splits)

text \<open>
  Claim C7 says that every input that fails validation makes the constructor throw a
  \<open>ValidationError\<close>. That holds for every descriptor that fails (one without \<open>command\<close>
  among them) and for every bundle of streams that is an object and fails
  (\<open>Command_new_rejects_descriptor\<close>, \<open>Command_new_rejects_missing_command\<close>,
  \<open>Command_new_rejects_streams\<close>). When the bundle is not provided at all, building the
  diagnostic calls \<open>streams.toString()\<close> on \<open>undefined\<close>, and what the constructor throws
  is a \<open>TypeError\<close>. No object is created in either case.
\<close>

theorem streams_not_provided:
  "commandDescriptorSchema (Some sampleDescriptor)
   \<and> \<not> runCommandArgsSchema None
   \<and> Command_new ''id-1'' sampleUser (Some sampleDescriptor) None
       = Inl (TypeError ''Cannot read properties of undefined (reading toString)'')"
  by (simp add: Command_new_def sampleDescriptor_def)

end
